theory Spec2Isabelle
  imports Complex_Main "HOL-Library.AList"
begin

section \<open>Audio streaming core of the music server: data model\<close>

text \<open>
  The development follows \<^verbatim>\<open>music_assistant/server/controllers/streams.py\<close>.
  Python \<^verbatim>\<open>bytes\<close> are lists of 8-bit characters; a Python \<^verbatim>\<open>str\<close> is
  represented by its UTF-8 encoding, so \<^verbatim>\<open>.encode()\<close> is the identity on it and the
  ASCII delimiters the code searches for (\<^verbatim>\<open>;\<close>, \<^verbatim>\<open>&\<close>, \<^verbatim>\<open>=\<close>) are found at the same
  places. Python integers are \<open>int\<close>; byte counts, which the code only ever builds from
  \<^verbatim>\<open>len\<close>, are \<open>nat\<close>.
\<close>

type_synonym bytes = "char list"

datatype py_error =
    ValueError
  | ZeroDivisionError
  | AssertionError
  | MediaNotFoundError
  | QueueEmpty
  | QueueFull
  | TimeoutError
  | UnicodeEncodeError
  | ProviderError

text \<open>
  Modelled from the spec: the \<^verbatim>\<open>ContentType\<close> enumeration lives in
  \<^verbatim>\<open>music_assistant.common.models.enums\<close>, which is not part of the sources at hand.
  The spec describes it as a tagged variant over PCM16, PCM24, PCM32, FLAC, MP3, AAC,
  WAV and others; the controller itself names \<^verbatim>\<open>PCM\<close> (the generic PCM type),
  \<^verbatim>\<open>WAV\<close>, \<^verbatim>\<open>FLAC\<close>, \<^verbatim>\<open>AAC\<close> and \<^verbatim>\<open>MP3\<close>.
\<close>

datatype content_type =
    PCM_S16LE
  | PCM_S24LE
  | PCM_S32LE
  | PCM
  | WAV
  | FLAC
  | MP3
  | AAC
  | OTHER string

text \<open>
  Modelled from the spec: \<^verbatim>\<open>ContentType.is_pcm\<close> (same missing module). The PCM
  variants are the three fixed-width ones and the generic \<^verbatim>\<open>PCM\<close>, which
  \<^verbatim>\<open>_get_output_format\<close> resolves inside its PCM branch.
\<close>

fun is_pcm :: "content_type \<Rightarrow> bool" where
  "is_pcm PCM_S16LE = True"
| "is_pcm PCM_S24LE = True"
| "is_pcm PCM_S32LE = True"
| "is_pcm PCM = True"
| "is_pcm _ = False"

record audio_format =
  content_type :: content_type
  sample_rate :: int
  bit_depth :: int
  channels :: int
  output_format_str :: string

record player =
  player_id :: string
  max_sample_rate :: int
  supports_24bit :: bool

text \<open>
  What the controller calls but does not define: the standard library's
  \<^verbatim>\<open>urllib.parse.unquote\<close> and \<^verbatim>\<open>int\<close> on a string (\<open>None\<close> is its
  \<^verbatim>\<open>ValueError\<close>), \<^verbatim>\<open>ContentType.try_parse\<close> and \<^verbatim>\<open>ContentType.from_bit_depth\<close>
  of the missing enumeration module, and the configuration lookup
  \<^verbatim>\<open>config.get_player_config_value(player_id, CONF_OUTPUT_CHANNELS)\<close>. They are
  parameters: every theorem below holds whatever they compute.
\<close>

record helpers =
  unquote :: "string \<Rightarrow> string"
  py_int :: "string \<Rightarrow> int option"
  try_parse :: "string \<Rightarrow> content_type"
  from_bit_depth :: "int \<Rightarrow> content_type"
  output_channels_conf :: "string \<Rightarrow> string"

section \<open>Format negotiation\<close>

subsection \<open>\<^verbatim>\<open>urllib.parse.parse_qsl\<close> with its default arguments\<close>

text \<open>\<^verbatim>\<open>s.replace(a, b)\<close> for single characters.\<close>

definition replace_char :: "char \<Rightarrow> char \<Rightarrow> string \<Rightarrow> string" where
  "replace_char a b s = map (\<lambda>c. if c = a then b else c) s"

text \<open>\<^verbatim>\<open>s.split(sep)\<close> for a one-character separator: never the empty list.\<close>

fun split_on :: "char \<Rightarrow> string \<Rightarrow> string list" where
  "split_on sep [] = [[]]"
| "split_on sep (c # cs) =
     (if c = sep then [] # split_on sep cs
      else (case split_on sep cs of
              [] \<Rightarrow> [[c]]
            | p # ps \<Rightarrow> (c # p) # ps))"

text \<open>\<^verbatim>\<open>s.split('=', 1)\<close>: \<open>None\<close> when the result has one element only.\<close>

fun split_first :: "char \<Rightarrow> string \<Rightarrow> (string \<times> string) option" where
  "split_first sep [] = None"
| "split_first sep (c # cs) =
     (if c = sep then Some ([], cs)
      else (case split_first sep cs of
              None \<Rightarrow> None
            | Some (a, b) \<Rightarrow> Some (c # a, b)))"

text \<open>
  One field of the query string, with \<^verbatim>\<open>keep_blank_values=False\<close> and
  \<^verbatim>\<open>strict_parsing=False\<close>: an empty field, a field without \<^verbatim>\<open>=\<close> and a field
  with an empty value are skipped; otherwise \<^verbatim>\<open>+\<close> becomes a blank and both sides are
  unquoted.
\<close>

definition parse_field :: "(string \<Rightarrow> string) \<Rightarrow> string \<Rightarrow> (string \<times> string) list" where
  "parse_field unq name_value =
     (if name_value = [] then []
      else (case split_first (CHR ''='') name_value of
              None \<Rightarrow> []
            | Some (n, v) \<Rightarrow>
                if v = [] then []
                else [(unq (replace_char (CHR ''+'') (CHR '' '') n),
                       unq (replace_char (CHR ''+'') (CHR '' '') v))]))"

definition parse_qsl :: "(string \<Rightarrow> string) \<Rightarrow> string \<Rightarrow> (string \<times> string) list" where
  "parse_qsl unq qs = concat (map (parse_field unq) (split_on (CHR ''&'') qs))"

text \<open>\<^verbatim>\<open>dict(pairs)\<close>: a later pair overrides an earlier one with the same key.\<close>

definition py_dict :: "('k \<times> 'v) list \<Rightarrow> ('k \<rightharpoonup> 'v)" where
  "py_dict kvs = map_of (rev kvs)"

subsection \<open>\<^verbatim>\<open>parse_pcm_info\<close>\<close>

definition pcm_params :: "(string \<Rightarrow> string) \<Rightarrow> string \<Rightarrow> (string \<rightharpoonup> string)" where
  "pcm_params unq ct =
     (if CHR '';'' \<in> set ct
      then py_dict (parse_qsl unq (replace_char (CHR '';'') (CHR ''&'') ct))
      else Map.empty)"

text \<open>\<^verbatim>\<open>int(params.get(key, default))\<close>: the default is an integer already.\<close>

definition int_param ::
  "(string \<Rightarrow> int option) \<Rightarrow> (string \<rightharpoonup> string) \<Rightarrow> string \<Rightarrow> int \<Rightarrow> py_error + int" where
  "int_param to_int params k dflt =
     (case params k of
        None \<Rightarrow> Inr dflt
      | Some v \<Rightarrow> (case to_int v of None \<Rightarrow> Inl ValueError | Some n \<Rightarrow> Inr n))"

definition parse_pcm_info ::
  "(string \<Rightarrow> string) \<Rightarrow> (string \<Rightarrow> int option) \<Rightarrow> string \<Rightarrow> py_error + (int \<times> int \<times> int)" where
  "parse_pcm_info unq to_int ct =
     (let params = pcm_params unq ct in
      case int_param to_int params ''rate'' 44100 of
        Inl e \<Rightarrow> Inl e
      | Inr rate \<Rightarrow>
          (case int_param to_int params ''bitrate'' 16 of
             Inl e \<Rightarrow> Inl e
           | Inr sample_size \<Rightarrow>
               (case int_param to_int params ''channels'' 2 of
                  Inl e \<Rightarrow> Inl e
                | Inr chans \<Rightarrow> Inr (rate, sample_size, chans))))"

subsection \<open>\<^verbatim>\<open>StreamsController._get_output_format\<close>\<close>

definition get_output_format ::
  "helpers \<Rightarrow> string \<Rightarrow> player \<Rightarrow> int \<Rightarrow> int \<Rightarrow> py_error + audio_format" where
  "get_output_format h fmt queue_player default_sample_rate default_bit_depth =
     (let ct = try_parse h fmt in
      if is_pcm ct \<or> ct = WAV then
        (case parse_pcm_info (unquote h) (py_int h) fmt of
           Inl e \<Rightarrow> Inl e
         | Inr (output_sample_rate, output_bit_depth, output_channels) \<Rightarrow>
             Inr \<lparr> content_type = (if ct = PCM then from_bit_depth h output_bit_depth else ct),
                   sample_rate = output_sample_rate,
                   bit_depth = output_bit_depth,
                   channels = output_channels,
                   output_format_str = fmt \<rparr>)
      else
        (let output_sample_rate = min default_sample_rate (max_sample_rate queue_player);
             player_max_bit_depth = (if supports_24bit queue_player then 32 else 16);
             output_bit_depth = min default_bit_depth player_max_bit_depth;
             output_channels_str = output_channels_conf h (player_id queue_player);
             output_channels = (if output_channels_str \<noteq> ''stereo'' then 1 else 2)
         in Inr \<lparr> content_type = ct,
                  sample_rate = output_sample_rate,
                  bit_depth = output_bit_depth,
                  channels = output_channels,
                  output_format_str = fmt \<rparr>))"

text \<open>
  Instances of the parameters for concrete runs: an \<^verbatim>\<open>int\<close> that reads plain ASCII
  decimal literals with an optional sign, an \<^verbatim>\<open>unquote\<close> for strings without
  percent escapes, and a \<^verbatim>\<open>try_parse\<close> that looks at the codec name in front of
  the first \<^verbatim>\<open>;\<close>.
\<close>

definition digit_val :: "char \<Rightarrow> nat option" where
  "digit_val c =
     (let n = of_char c :: nat in if 48 \<le> n \<and> n \<le> 57 then Some (n - 48) else None)"

fun decimal_nat :: "nat \<Rightarrow> string \<Rightarrow> nat option" where
  "decimal_nat acc [] = Some acc"
| "decimal_nat acc (c # cs) =
     (case digit_val c of
        None \<Rightarrow> None
      | Some d \<Rightarrow> decimal_nat (10 * acc + d) cs)"

definition ascii_int :: "string \<Rightarrow> int option" where
  "ascii_int s =
     (case s of
        [] \<Rightarrow> None
      | c # cs \<Rightarrow>
          if c = CHR ''-'' then (if cs = [] then None else map_option (\<lambda>n. - int n) (decimal_nat 0 cs))
          else if c = CHR ''+'' then (if cs = [] then None else map_option int (decimal_nat 0 cs))
          else map_option int (decimal_nat 0 s))"

definition codec_name :: "string \<Rightarrow> content_type" where
  "codec_name fmt =
     (let name = hd (split_on (CHR '';'') fmt) in
      if name = ''pcm'' then PCM
      else if name = ''s16le'' then PCM_S16LE
      else if name = ''s24le'' then PCM_S24LE
      else if name = ''s32le'' then PCM_S32LE
      else if name = ''wav'' then WAV
      else if name = ''flac'' then FLAC
      else if name = ''mp3'' then MP3
      else if name = ''aac'' then AAC
      else OTHER name)"

definition width_type :: "int \<Rightarrow> content_type" where
  "width_type b = (if b = 16 then PCM_S16LE else if b = 24 then PCM_S24LE else PCM_S32LE)"

definition sample_helpers :: "string \<Rightarrow> helpers" where
  "sample_helpers conf =
     \<lparr> unquote = (\<lambda>s. s),
       py_int = ascii_int,
       try_parse = codec_name,
       from_bit_depth = width_type,
       output_channels_conf = (\<lambda>_. conf) \<rparr>"

section \<open>ICY metadata on the flow endpoint\<close>

text \<open>
  \<^verbatim>\<open>serve_queue_flow_stream\<close>, the part that deals with ICY metadata: the header
  test, the interval, the headers of the response, the title and the block written
  after each chunk of transcoder output. Whether the output content type is lossless
  is decided by \<^verbatim>\<open>ContentType.is_lossless\<close> of the missing enumeration module; its
  answer is the parameter \<open>lossless\<close>.
\<close>

text \<open>\<^verbatim>\<open>request.headers.get("Icy-MetaData", "") == "1"\<close>\<close>

definition enable_icy :: "string option \<Rightarrow> bool" where
  "enable_icy hdr = ((case hdr of None \<Rightarrow> [] | Some v \<Rightarrow> v) = ''1'')"

definition icy_meta_interval :: "bool \<Rightarrow> nat" where
  "icy_meta_interval lossless = (if lossless then 65536 else 8192)"

text \<open>\<^verbatim>\<open>str(n)\<close> for a natural number.\<close>

definition digit_char :: "nat \<Rightarrow> char" where
  "digit_char d = char_of (48 + d)"

fun str_of_nat :: "nat \<Rightarrow> string" where
  "str_of_nat n = (if n < 10 then [digit_char n] else str_of_nat (n div 10) @ [digit_char (n mod 10)])"

definition DEFAULT_STREAM_HEADERS :: "(string \<times> string) list" where
  "DEFAULT_STREAM_HEADERS =
     [(''transferMode.dlna.org'', ''Streaming''),
      (''contentFeatures.dlna.org'',
       ''DLNA.ORG_OP=00;DLNA.ORG_CI=0;DLNA.ORG_FLAGS=0d500000000000000000000000000000''),
      (''Cache-Control'', ''no-cache''),
      (''Connection'', ''close''),
      (''icy-name'', ''Music Assistant''),
      (''icy-pub'', ''0'')]"

definition flow_response_headers :: "string option \<Rightarrow> bool \<Rightarrow> string \<Rightarrow> (string \<times> string) list" where
  "flow_response_headers hdr lossless fmt_str =
     (let headers = AList.update ''Content-Type'' (''audio/'' @ fmt_str) DEFAULT_STREAM_HEADERS
      in if enable_icy hdr
         then AList.update ''icy-metaint'' (str_of_nat (icy_meta_interval lossless)) headers
         else headers)"

text \<open>
  The queue item the title is read from: \<^verbatim>\<open>streamdetails\<close> may be missing, and so
  may its \<^verbatim>\<open>stream_title\<close>; an empty string is as false as \<^verbatim>\<open>None\<close>.
\<close>

record stream_details =
  uri :: string
  stream_title :: "string option"

record queue_item =
  queue_item_id :: string
  name :: string
  streamdetails :: "stream_details option"

definition truthy :: "string option \<Rightarrow> bool" where
  "truthy s = (case s of None \<Rightarrow> False | Some v \<Rightarrow> v \<noteq> [])"

definition icy_title :: "queue_item option \<Rightarrow> string" where
  "icy_title current_item =
     (case current_item of
        None \<Rightarrow> ''Music Assistant''
      | Some item \<Rightarrow>
          (case streamdetails item of
             Some sd \<Rightarrow>
               if truthy (stream_title sd) then the (stream_title sd)
               else if name item \<noteq> [] then name item
               else ''Music Assistant''
           | None \<Rightarrow>
               if name item \<noteq> [] then name item else ''Music Assistant''))"

text \<open>
  \<^verbatim>\<open>while len(metadata) % 16 != 0: metadata += b"\x00"\<close>. The loop is unrolled
  with a counter: a length is at most fifteen bytes short of a multiple of 16, so
  fifteen rounds reach the exit condition.
\<close>

fun pad_loop :: "nat \<Rightarrow> bytes \<Rightarrow> bytes" where
  "pad_loop 0 m = m"
| "pad_loop (Suc k) m = (if length m mod 16 \<noteq> 0 then pad_loop k (m @ [CHR 0x00]) else m)"

definition pad16 :: "bytes \<Rightarrow> bytes" where
  "pad16 m = pad_loop 15 m"

text \<open>
  \<^verbatim>\<open>chr(n).encode()\<close>: the UTF-8 encoding of the code point \<open>n\<close>. \<^verbatim>\<open>chr\<close> raises
  \<^verbatim>\<open>ValueError\<close> beyond U+10FFFF, and a surrogate cannot be encoded.
\<close>

definition chr_encode :: "nat \<Rightarrow> py_error + bytes" where
  "chr_encode n =
     (if n < 0x80 then Inr [char_of n]
      else if n < 0x800 then Inr [char_of (0xC0 + n div 64), char_of (0x80 + n mod 64)]
      else if n < 0x10000 then
        (if 0xD800 \<le> n \<and> n \<le> 0xDFFF then Inl UnicodeEncodeError
         else Inr [char_of (0xE0 + n div 4096), char_of (0x80 + (n div 64) mod 64),
                   char_of (0x80 + n mod 64)])
      else if n < 0x110000 then
        Inr [char_of (0xF0 + n div 262144), char_of (0x80 + (n div 4096) mod 64),
             char_of (0x80 + (n div 64) mod 64), char_of (0x80 + n mod 64)]
      else Inl ValueError)"

definition icy_metadata :: "string \<Rightarrow> bytes" where
  "icy_metadata title = pad16 (''StreamTitle='' @ [CHR 0x27] @ title @ [CHR 0x27] @ '';'')"

text \<open>What is written after a chunk: \<^verbatim>\<open>length_b + metadata\<close>.\<close>

definition icy_block :: "queue_item option \<Rightarrow> py_error + bytes" where
  "icy_block current_item =
     (let metadata = icy_metadata (icy_title current_item);
          len = length metadata
      in case chr_encode (len div 16) of
           Inl e \<Rightarrow> Inl e
         | Inr length_b \<Rightarrow> Inr (length_b @ metadata))"

text \<open>
  The relay loop. Each element of the iterator's output comes with the queue item that
  is current when the chunk has been written (\<^verbatim>\<open>player_queues.get_item\<close> is asked anew
  every time). The result is the sequence of \<^verbatim>\<open>resp.write\<close> calls; an error of the
  metadata step ends the handler with that error after the writes made so far.
\<close>

fun relay_flow :: "bool \<Rightarrow> (bytes \<times> queue_item option) list \<Rightarrow> bytes list \<times> py_error option" where
  "relay_flow icy [] = ([], None)"
| "relay_flow icy ((chunk, current_item) # rest) =
     (if \<not> icy then (let (ws, e) = relay_flow icy rest in (chunk # ws, e))
      else (case icy_block current_item of
              Inl e \<Rightarrow> ([chunk], Some e)
            | Inr block \<Rightarrow> (let (ws, e) = relay_flow icy rest in (chunk # block # ws, e))))"

section \<open>Multi-client stream jobs\<close>

text \<open>
  An \<^verbatim>\<open>asyncio.Task\<close> as far as the job looks at it: \<^verbatim>\<open>cancel()\<close> only requests the
  cancellation, \<^verbatim>\<open>done()\<close> holds once the task has returned, raised or been cancelled.
\<close>

datatype task_state = TaskRunning | TaskCancelRequested | TaskDone

text \<open>
  \<^verbatim>\<open>MultiClientStreamJob\<close>. The dictionaries are association lists without repeated
  keys (\<^verbatim>\<open>AList.update\<close> is item assignment, \<^verbatim>\<open>AList.delete\<close> is \<^verbatim>\<open>pop\<close>), the set of
  expected players a list without repetitions. A subscriber's
  \<^verbatim>\<open>asyncio.Queue(2)\<close> is the list of the chunks waiting in it, oldest first.
\<close>

record stream_job =
  job_queue_id :: string
  job_id :: string
  pcm_format :: audio_format
  start_queue_item :: string
  seek_position :: int
  fade_in :: bool
  expected_players :: "string list"
  subscribed_players :: "(string \<times> bytes list) list"
  bytes_streamed :: int
  client_seconds_skipped :: "(string \<times> real) list"
  all_clients_connected :: bool
  audio_task :: task_state
  finished_flag :: bool

definition queue_maxsize :: nat where
  "queue_maxsize = 2"

text \<open>The properties \<^verbatim>\<open>finished\<close>, \<^verbatim>\<open>pending\<close> and \<^verbatim>\<open>running\<close>.\<close>

definition finished :: "stream_job \<Rightarrow> bool" where
  "finished j = (finished_flag j \<or> audio_task j = TaskDone)"

definition pending :: "stream_job \<Rightarrow> bool" where
  "pending j = (\<not> finished j \<and> \<not> all_clients_connected j)"

definition running :: "stream_job \<Rightarrow> bool" where
  "running j = (\<not> finished j \<and> \<not> pending j)"

text \<open>\<^verbatim>\<open>Queue.put_nowait\<close>\<close>

definition put_nowait :: "bytes list \<Rightarrow> bytes \<Rightarrow> py_error + bytes list" where
  "put_nowait q chunk = (if length q \<ge> queue_maxsize then Inl QueueFull else Inr (q @ [chunk]))"

text \<open>\<^verbatim>\<open>with suppress(asyncio.QueueFull): sub_queue.put_nowait(b"")\<close>\<close>

definition put_eof_suppressed :: "bytes list \<Rightarrow> bytes list" where
  "put_eof_suppressed q = (case put_nowait q [] of Inl e \<Rightarrow> q | Inr q' \<Rightarrow> q')"

definition cancel :: "task_state \<Rightarrow> task_state" where
  "cancel t = (if t = TaskDone then TaskDone else TaskCancelRequested)"

text \<open>\<^verbatim>\<open>MultiClientStreamJob.stop\<close>\<close>

definition stop :: "stream_job \<Rightarrow> stream_job" where
  "stop j =
     (let j1 = j\<lparr>finished_flag := True\<rparr> in
      if audio_task j1 = TaskDone then j1
      else j1\<lparr>audio_task := cancel (audio_task j1),
               subscribed_players :=
                 map (\<lambda>(p, sub_queue). (p, put_eof_suppressed sub_queue)) (subscribed_players j1)\<rparr>)"

text \<open>
  Modelled from the spec: \<^verbatim>\<open>AudioFormat.pcm_sample_size\<close> belongs to the missing media
  model module. The spec gives it as sample rate times bit depth over eight times the
  number of channels; the integer is what \<^verbatim>\<open>int\<close> leaves of the product.
\<close>

definition trunc_div :: "int \<Rightarrow> int \<Rightarrow> int" where
  "trunc_div a b = (if a \<ge> 0 then a div b else - ((- a) div b))"

definition pcm_sample_size :: "audio_format \<Rightarrow> int" where
  "pcm_sample_size f = trunc_div (sample_rate f * bit_depth f * channels f) 8"

section \<open>The registry of stream jobs in the controller\<close>

text \<open>
  \<^verbatim>\<open>StreamsController.multi_client_jobs\<close> maps a queue id to a job object. Job objects
  outlive their registration (subscribers keep a reference), so the controller state
  holds every job ever created in \<open>jobs\<close>, and the registry maps a queue id to the
  position of its job there.
\<close>

record streams_controller =
  jobs :: "stream_job list"
  multi_client_jobs :: "(string \<times> nat) list"

text \<open>
  The first statement of \<^verbatim>\<open>create_multi_client_stream_job\<close>: pop the existing job and
  stop it unless it is finished.
\<close>

definition cleanup_existing :: "string \<Rightarrow> streams_controller \<Rightarrow> streams_controller" where
  "cleanup_existing qid c =
     (case map_of (multi_client_jobs c) qid of
        None \<Rightarrow> c
      | Some r \<Rightarrow>
          (let c1 = c\<lparr>multi_client_jobs := AList.delete qid (multi_client_jobs c)\<rparr> in
           if \<not> finished (jobs c1 ! r) then c1\<lparr>jobs := (jobs c1)[r := stop (jobs c1 ! r)]\<rparr>
           else c1))"

text \<open>
  \<^verbatim>\<open>MultiClientStreamJob.__init__\<close> with the arguments the controller passes. The
  content type of the fixed 48 kHz / 24 bit / stereo format comes from
  \<^verbatim>\<open>ContentType.from_bit_depth(24)\<close>; the format string keeps the data class's default,
  which nothing here reads. \<open>uuid\<close> is the value \<^verbatim>\<open>shortuuid.uuid()\<close> returns.
\<close>

definition new_job :: "helpers \<Rightarrow> string \<Rightarrow> string \<Rightarrow> int \<Rightarrow> bool \<Rightarrow> string \<Rightarrow> stream_job" where
  "new_job h qid item seek fade uuid =
     \<lparr> job_queue_id = qid,
       job_id = uuid,
       pcm_format = \<lparr> content_type = from_bit_depth h 24, sample_rate = 48000,
                      bit_depth = 24, channels = 2, output_format_str = [] \<rparr>,
       start_queue_item = item,
       seek_position = seek,
       fade_in = fade,
       expected_players = [],
       subscribed_players = [],
       bytes_streamed = 0,
       client_seconds_skipped = [],
       all_clients_connected = False,
       audio_task = TaskRunning,
       finished_flag = False \<rparr>"

text \<open>
  \<^verbatim>\<open>create_multi_client_stream_job\<close>. \<open>known_queue\<close> tells whether
  \<^verbatim>\<open>player_queues.get(queue_id)\<close> finds the queue: the constructor asserts it, after the
  existing job has been dealt with. The result is the new controller state and the
  reference to the new job, or the error.
\<close>

definition create_multi_client_stream_job ::
  "helpers \<Rightarrow> (string \<Rightarrow> bool) \<Rightarrow> string \<Rightarrow> string \<Rightarrow> int \<Rightarrow> bool \<Rightarrow> string \<Rightarrow>
   streams_controller \<Rightarrow> streams_controller \<times> (py_error + nat)" where
  "create_multi_client_stream_job h known_queue qid item seek fade uuid c =
     (let c1 = cleanup_existing qid c in
      if \<not> known_queue qid then (c1, Inl AssertionError)
      else
        (let r = length (jobs c1) in
         (c1\<lparr>jobs := jobs c1 @ [new_job h qid item seek fade uuid],
             multi_client_jobs := AList.update qid r (multi_client_jobs c1)\<rparr>,
          Inr r)))"

text \<open>
  No job that is still alive is unregistered: a job that has not finished is the one
  the registry holds for its queue.
\<close>

definition registry_ok :: "streams_controller \<Rightarrow> bool" where
  "registry_ok c =
     (distinct (map fst (multi_client_jobs c)) \<and>
      list_all (\<lambda>(q, r). r < length (jobs c) \<and> job_queue_id (jobs c ! r) = q) (multi_client_jobs c) \<and>
      list_all (\<lambda>r. finished (jobs c ! r) \<or>
                     map_of (multi_client_jobs c) (job_queue_id (jobs c ! r)) = Some r)
               [0..<length (jobs c)])"

text \<open>A job with given subscriber channels and task state, for concrete runs.\<close>

definition sample_job :: "(string \<times> bytes list) list \<Rightarrow> task_state \<Rightarrow> stream_job" where
  "sample_job subs t =
     (new_job (sample_helpers ''stereo'') ''queue1'' ''item1'' 0 False ''job1'')
       \<lparr>expected_players := map fst subs, subscribed_players := subs, audio_task := t\<rparr>"

text \<open>
  A controller that holds one running job for \<open>queue1\<close>, and the call that creates
  a second job for the same queue on it.
\<close>

definition sample_controller :: streams_controller where
  "sample_controller =
     \<lparr>jobs = [sample_job [] TaskRunning], multi_client_jobs = [(''queue1'', 0)]\<rparr>"

definition sample_create :: "streams_controller \<times> (py_error + nat)" where
  "sample_create =
     create_multi_client_stream_job (sample_helpers ''stereo'') (\<lambda>q. True)
       ''queue1'' ''item2'' 0 False ''job2'' sample_controller"

section \<open>Verified properties\<close>

subsection \<open>Format negotiation\<close>

text \<open>
  Claim C2. When the format string does not parse as PCM or WAV, the resolved format has
  the default sample rate capped by the player's maximum, the default bit depth capped
  by 32 (player supports 24 bit) or 16, and two channels unless the player's output
  channel setting is mono, left or right (then one). When it does parse as PCM or WAV,
  the rate, bit depth and channels read from the string are used as they are: the
  result does not depend on the player or on the defaults at all.
\<close>

theorem output_format_negotiation:
  assumes conf: "output_channels_conf h (player_id p) \<in> {''stereo'', ''mono'', ''left'', ''right''}"
  shows "(\<not> (is_pcm (try_parse h fmt) \<or> try_parse h fmt = WAV) \<longrightarrow>
            (\<exists>af. get_output_format h fmt p dsr dbd = Inr af \<and>
               sample_rate af = min dsr (max_sample_rate p) \<and>
               bit_depth af = min dbd (if supports_24bit p then 32 else 16) \<and>
               channels af =
                 (if output_channels_conf h (player_id p) \<in> {''mono'', ''left'', ''right''}
                  then 1 else 2))) \<and>
         (is_pcm (try_parse h fmt) \<or> try_parse h fmt = WAV \<longrightarrow>
            get_output_format h fmt p dsr dbd = get_output_format h fmt p' dsr' dbd' \<and>
            (case parse_pcm_info (unquote h) (py_int h) fmt of
               Inl e \<Rightarrow> get_output_format h fmt p dsr dbd = Inl e
             | Inr (r, b, c) \<Rightarrow>
                 (\<exists>af. get_output_format h fmt p dsr dbd = Inr af \<and>
                    sample_rate af = r \<and> bit_depth af = b \<and> channels af = c)))"
  using conf by (auto simp: get_output_format_def Let_def split: sum.splits)

lemma pcm_url_params:
  "pcm_params (\<lambda>s. s) ''pcm;rate=96000;bitrate=24;channels=2'' =
     [''rate'' \<mapsto> ''96000'', ''bitrate'' \<mapsto> ''24'', ''channels'' \<mapsto> ''2'']"
  by (simp add: pcm_params_def py_dict_def parse_qsl_def parse_field_def replace_char_def fun_eq_iff)

lemma pcm_url_info:
  "parse_pcm_info (\<lambda>s. s) ascii_int ''pcm;rate=96000;bitrate=24;channels=2'' = Inr (96000, 24, 2)"
  by (simp add: parse_pcm_info_def pcm_url_params int_param_def ascii_int_def digit_val_def)

theorem output_format_negotiation_witness:
  "(\<exists>af. get_output_format (sample_helpers ''left'') ''flac''
            \<lparr>player_id = ''p1'', max_sample_rate = 48000, supports_24bit = False\<rparr> 96000 24 = Inr af \<and>
         sample_rate af = 48000 \<and> bit_depth af = 16 \<and> channels af = 1) \<and>
   (\<exists>af. get_output_format (sample_helpers ''stereo'') ''pcm;rate=96000;bitrate=24;channels=2''
            \<lparr>player_id = ''p1'', max_sample_rate = 48000, supports_24bit = True\<rparr> 96000 24 = Inr af \<and>
         sample_rate af = 96000 \<and> bit_depth af = 24 \<and> channels af = 2)"
proof -
  let ?p = "\<lparr>player_id = ''p1'', max_sample_rate = 48000, supports_24bit = False\<rparr>"
  let ?q = "\<lparr>player_id = ''p1'', max_sample_rate = 48000, supports_24bit = True\<rparr>"
  have c1: "output_channels_conf (sample_helpers ''left'') (player_id ?p)
              \<in> {''stereo'', ''mono'', ''left'', ''right''}"
    by (simp add: sample_helpers_def)
  have c2: "output_channels_conf (sample_helpers ''stereo'') (player_id ?q)
              \<in> {''stereo'', ''mono'', ''left'', ''right''}"
    by (simp add: sample_helpers_def)
  have t1: "try_parse (sample_helpers ''left'') ''flac'' = FLAC"
    by (simp add: sample_helpers_def codec_name_def)
  have t2: "try_parse (sample_helpers ''stereo'') ''pcm;rate=96000;bitrate=24;channels=2'' = PCM"
    by (simp add: sample_helpers_def codec_name_def)
  have i2: "parse_pcm_info (unquote (sample_helpers ''stereo'')) (py_int (sample_helpers ''stereo''))
              ''pcm;rate=96000;bitrate=24;channels=2'' = Inr (96000, 24, 2)"
    by (simp add: sample_helpers_def pcm_url_info)
  from output_format_negotiation [OF c1, of "''flac''" 96000 24] t1
  have a: "\<exists>af. get_output_format (sample_helpers ''left'') ''flac'' ?p 96000 24 = Inr af \<and>
         sample_rate af = 48000 \<and> bit_depth af = 16 \<and> channels af = 1"
    by (simp add: sample_helpers_def)
  from output_format_negotiation [OF c2, of "''pcm;rate=96000;bitrate=24;channels=2''" 96000 24] t2 i2
  have b: "\<exists>af. get_output_format (sample_helpers ''stereo'') ''pcm;rate=96000;bitrate=24;channels=2'' ?q 96000 24 = Inr af \<and>
         sample_rate af = 96000 \<and> bit_depth af = 24 \<and> channels af = 2"
    by simp
  from a b show ?thesis by blast
qed

text \<open>
  Claim C10. For a format string that parses as PCM or WAV, a parameter the string
  omits (no \<^verbatim>\<open>rate\<close>, \<^verbatim>\<open>bitrate\<close> or \<^verbatim>\<open>channels\<close> key after parsing) takes the
  fixed default 44100 Hz, 16 bit or 2 channels, whatever the caller's defaults and the
  player's capabilities are; with all three omitted the function returns exactly that
  format.
\<close>

theorem pcm_defaults_for_omitted_params:
  assumes "is_pcm (try_parse h fmt) \<or> try_parse h fmt = WAV"
  shows "(pcm_params (unquote h) fmt ''rate'' = None \<longrightarrow>
            (\<forall>af. get_output_format h fmt p dsr dbd = Inr af \<longrightarrow> sample_rate af = 44100)) \<and>
         (pcm_params (unquote h) fmt ''bitrate'' = None \<longrightarrow>
            (\<forall>af. get_output_format h fmt p dsr dbd = Inr af \<longrightarrow> bit_depth af = 16)) \<and>
         (pcm_params (unquote h) fmt ''channels'' = None \<longrightarrow>
            (\<forall>af. get_output_format h fmt p dsr dbd = Inr af \<longrightarrow> channels af = 2)) \<and>
         (pcm_params (unquote h) fmt ''rate'' = None \<and>
          pcm_params (unquote h) fmt ''bitrate'' = None \<and>
          pcm_params (unquote h) fmt ''channels'' = None \<longrightarrow>
            (\<exists>af. get_output_format h fmt p dsr dbd = Inr af \<and>
               sample_rate af = 44100 \<and> bit_depth af = 16 \<and> channels af = 2))"
  using assms
  by (auto simp: get_output_format_def parse_pcm_info_def int_param_def Let_def
           split: sum.splits option.splits)

lemma wav_params: "pcm_params u ''wav'' k = None"
  by (simp add: pcm_params_def)

theorem pcm_defaults_for_omitted_params_witness:
  "\<exists>af. get_output_format (sample_helpers ''left'') ''wav''
            \<lparr>player_id = ''p1'', max_sample_rate = 22050, supports_24bit = False\<rparr> 96000 24 = Inr af \<and>
         sample_rate af = 44100 \<and> bit_depth af = 16 \<and> channels af = 2"
proof -
  have t: "is_pcm (try_parse (sample_helpers ''left'') ''wav'') \<or>
           try_parse (sample_helpers ''left'') ''wav'' = WAV"
    by (simp add: sample_helpers_def codec_name_def)
  from pcm_defaults_for_omitted_params [OF t] show ?thesis
    by (simp add: wav_params)
qed

subsection \<open>ICY metadata\<close>

lemma pad_loop_aligned: "length m mod 16 = 0 \<Longrightarrow> pad_loop k m = m"
  by (cases k) simp_all

lemma icy_title_long:
  "icy_title (Some \<lparr>queue_item_id = ''1'', name = ''x'',
      streamdetails = Some \<lparr>uri = ''u'', stream_title = Some (replicate 2033 (CHR ''a''))\<rparr>\<rparr>)
   = replicate 2033 (CHR ''a'')"
  by (simp add: icy_title_def truthy_def)

lemma icy_metadata_long_length:
  "length (''StreamTitle='' @ [CHR 0x27] @ replicate 2033 (CHR ''a'') @ [CHR 0x27] @ '';'') = 2048"
  by simp

lemma icy_metadata_long:
  "icy_metadata (replicate 2033 (CHR ''a'')) =
     ''StreamTitle='' @ [CHR 0x27] @ replicate 2033 (CHR ''a'') @ [CHR 0x27] @ '';''"
  unfolding icy_metadata_def pad16_def
  by (rule pad_loop_aligned) (simp only: icy_metadata_long_length, simp)

lemma chr_encode_128: "chr_encode 128 = Inr [CHR 0xC2, CHR 0x80]"
  by code_simp

lemma chr_encode_ascii: "n < 128 \<Longrightarrow> chr_encode n = Inr [char_of n]"
  by (simp add: chr_encode_def)

lemma icy_block_one_byte:
  "length (icy_metadata (icy_title item)) div 16 < 128 \<Longrightarrow>
   icy_block item =
     Inr (char_of (length (icy_metadata (icy_title item)) div 16) # icy_metadata (icy_title item))"
  by (simp add: icy_block_def Let_def chr_encode_ascii)

text \<open>
  Claim C9. The claim asks for exactly one length byte after every block. For a stream
  title of 2033 bytes the metadata is 2048 bytes long, its sixteenth is 128, and
  \<^verbatim>\<open>chr(128).encode()\<close> is the two bytes C2 80: the block starts with two bytes,
  neither of which is 128. (\<open>icy_block_one_byte\<close> above is the case the code gets
  right: below 2048 bytes of metadata the prefix is the single byte the claim names.)
\<close>

theorem icy_length_prefix_two_bytes:
  "icy_block (Some \<lparr>queue_item_id = ''1'', name = ''x'',
      streamdetails = Some \<lparr>uri = ''u'', stream_title = Some (replicate 2033 (CHR ''a''))\<rparr>\<rparr>)
   = Inr ([CHR 0xC2, CHR 0x80] @ icy_metadata (replicate 2033 (CHR ''a''))) \<and>
   length (icy_metadata (replicate 2033 (CHR ''a''))) = 2048"
proof -
  have len: "length (icy_metadata (replicate 2033 (CHR ''a''))) = 2048"
    by (simp only: icy_metadata_long icy_metadata_long_length)
  have d: "(2048::nat) div 16 = 128" by simp
  show ?thesis
    unfolding icy_block_def Let_def icy_title_long len d chr_encode_128
    by simp
qed

subsection \<open>Stopping a job\<close>

lemma put_eof_suppressed_eq:
  "put_eof_suppressed q = (if length q < queue_maxsize then q @ [[]] else q)"
  by (simp add: put_eof_suppressed_def put_nowait_def)

lemma map_of_map_value:
  "map_of (map (\<lambda>(p, q). (p, f q)) xs) k = map_option f (map_of xs k)"
  by (induction xs) auto

text \<open>
  Claim C8, as the code has it. \<^verbatim>\<open>stop()\<close> always marks the job finished. When the
  producer task is already done it does nothing else. Otherwise it requests the
  cancellation of the task and puts an empty chunk on every subscribed channel that
  has room; a channel that already holds two chunks is left as it is. In particular a
  consumer blocked on an empty channel finds the empty chunk there.
\<close>

theorem stop_effect:
  "finished (stop j) \<and>
   (if audio_task j = TaskDone then stop j = j\<lparr>finished_flag := True\<rparr>
    else audio_task (stop j) = TaskCancelRequested \<and>
         map fst (subscribed_players (stop j)) = map fst (subscribed_players j) \<and>
         map_of (subscribed_players (stop j)) p =
           (case map_of (subscribed_players j) p of
              None \<Rightarrow> None
            | Some q \<Rightarrow> Some (if length q < queue_maxsize then q @ [[]] else q)))"
proof (cases "audio_task j = TaskDone")
  case True
  then show ?thesis by (simp add: stop_def finished_def)
next
  case False
  have subs: "subscribed_players (stop j) =
      map (\<lambda>(p, q). (p, put_eof_suppressed q)) (subscribed_players j)"
    using False by (simp add: stop_def)
  have keys: "map fst (subscribed_players (stop j)) = map fst (subscribed_players j)"
    unfolding subs by (induction "subscribed_players j") auto
  have look: "map_of (subscribed_players (stop j)) p =
      map_option put_eof_suppressed (map_of (subscribed_players j) p)"
    unfolding subs by (rule map_of_map_value)
  show ?thesis
    using False keys look
    by (simp add: stop_def finished_def cancel_def put_eof_suppressed_eq split: option.splits)
qed

theorem stop_effect_witness:
  "finished (stop (sample_job [(''A'', [])] TaskRunning)) \<and>
   audio_task (stop (sample_job [(''A'', [])] TaskRunning)) = TaskCancelRequested \<and>
   map_of (subscribed_players (stop (sample_job [(''A'', [])] TaskRunning))) ''A'' = Some [[]]"
  using stop_effect [of "sample_job [(''A'', [])] TaskRunning" "''A''"]
  by (simp add: sample_job_def new_job_def queue_maxsize_def)

text \<open>
  The claim as stated fails in two states: with the producer task done, a subscriber's
  empty channel stays empty; with the task running, a full channel gets no empty chunk.
\<close>

theorem stop_leaves_channels_counterexample:
  "audio_task (sample_job [(''A'', [])] TaskDone) = TaskDone \<and>
   subscribed_players (stop (sample_job [(''A'', [])] TaskDone)) = [(''A'', [])] \<and>
   audio_task (sample_job [(''B'', [''x'', ''y''])] TaskRunning) = TaskRunning \<and>
   subscribed_players (stop (sample_job [(''B'', [''x'', ''y''])] TaskRunning)) =
     [(''B'', [''x'', ''y''])]"
  by (simp add: sample_job_def new_job_def stop_def put_eof_suppressed_def put_nowait_def
      queue_maxsize_def cancel_def)

subsection \<open>One job per queue\<close>

lemma finished_stop: "finished (stop j)"
  by (simp add: stop_def finished_def Let_def)

lemma job_queue_id_stop: "job_queue_id (stop j) = job_queue_id j"
  by (simp add: stop_def Let_def)

lemma registry_ok_iff:
  "registry_ok c \<longleftrightarrow>
     distinct (map fst (multi_client_jobs c)) \<and>
     (\<forall>q r. map_of (multi_client_jobs c) q = Some r \<longrightarrow>
        r < length (jobs c) \<and> job_queue_id (jobs c ! r) = q) \<and>
     (\<forall>r < length (jobs c). finished (jobs c ! r) \<or>
        map_of (multi_client_jobs c) (job_queue_id (jobs c ! r)) = Some r)"
  by (auto simp: registry_ok_def list_all_iff)

lemma registry_okI:
  assumes "distinct (map fst (multi_client_jobs c))"
      and "\<And>q r. map_of (multi_client_jobs c) q = Some r \<Longrightarrow>
             r < length (jobs c) \<and> job_queue_id (jobs c ! r) = q"
      and "\<And>r. r < length (jobs c) \<Longrightarrow> finished (jobs c ! r) \<or>
             map_of (multi_client_jobs c) (job_queue_id (jobs c ! r)) = Some r"
  shows "registry_ok c"
  using assms unfolding registry_ok_iff by blast

lemma cleanup_length: "length (jobs (cleanup_existing qid c)) = length (jobs c)"
  by (simp add: cleanup_existing_def Let_def split: option.splits)

lemma cleanup_registry:
  "map_of (multi_client_jobs (cleanup_existing qid c)) =
     (map_of (multi_client_jobs c))(qid := None)"
  by (auto simp: cleanup_existing_def Let_def delete_conv' fun_eq_iff split: option.splits)

lemma cleanup_distinct:
  "distinct (map fst (multi_client_jobs c)) \<Longrightarrow>
   distinct (map fst (multi_client_jobs (cleanup_existing qid c)))"
  by (simp add: cleanup_existing_def Let_def distinct_delete split: option.splits)

lemma cleanup_job:
  "r < length (jobs c) \<Longrightarrow>
   jobs (cleanup_existing qid c) ! r =
     (if map_of (multi_client_jobs c) qid = Some r \<and> \<not> finished (jobs c ! r)
      then stop (jobs c ! r) else jobs c ! r)"
proof (cases "map_of (multi_client_jobs c) qid")
  case None
  then show ?thesis by (simp add: cleanup_existing_def)
next
  case (Some r0)
  assume "r < length (jobs c)"
  then show ?thesis
    using Some by (cases "r0 = r") (auto simp: cleanup_existing_def Let_def)
qed

lemma cleanup_queue_id:
  "r < length (jobs c) \<Longrightarrow>
   job_queue_id (jobs (cleanup_existing qid c) ! r) = job_queue_id (jobs c ! r)"
  by (simp add: cleanup_job job_queue_id_stop)

lemma cleanup_finished:
  "r < length (jobs c) \<Longrightarrow> finished (jobs c ! r) \<Longrightarrow>
   finished (jobs (cleanup_existing qid c) ! r)"
  by (simp add: cleanup_job)

lemma cleanup_old_finished:
  "r < length (jobs c) \<Longrightarrow> map_of (multi_client_jobs c) qid = Some r \<Longrightarrow>
   finished (jobs (cleanup_existing qid c) ! r)"
  by (simp add: cleanup_job finished_stop)

lemma cleanup_registry_ok:
  assumes "registry_ok c"
  shows "registry_ok (cleanup_existing qid c) \<and>
         (\<forall>r < length (jobs c). job_queue_id (jobs (cleanup_existing qid c) ! r) = qid \<longrightarrow>
            finished (jobs (cleanup_existing qid c) ! r))"
proof -
  let ?c = "cleanup_existing qid c"
  from assms have d: "distinct (map fst (multi_client_jobs c))"
    and reg: "\<And>q r. map_of (multi_client_jobs c) q = Some r \<Longrightarrow>
        r < length (jobs c) \<and> job_queue_id (jobs c ! r) = q"
    and live: "\<And>r. r < length (jobs c) \<Longrightarrow> finished (jobs c ! r) \<or>
        map_of (multi_client_jobs c) (job_queue_id (jobs c ! r)) = Some r"
    by (auto simp: registry_ok_iff)
  have a: "distinct (map fst (multi_client_jobs ?c))"
    using d by (rule cleanup_distinct)
  have b: "r < length (jobs ?c) \<and> job_queue_id (jobs ?c ! r) = q"
    if "map_of (multi_client_jobs ?c) q = Some r" for q r
  proof -
    from that have "map_of (multi_client_jobs c) q = Some r"
      by (simp add: cleanup_registry split: if_splits)
    from reg [OF this] show ?thesis by (simp add: cleanup_length cleanup_queue_id)
  qed
  have c: "finished (jobs ?c ! r) \<or>
        map_of (multi_client_jobs ?c) (job_queue_id (jobs ?c ! r)) = Some r"
    if "r < length (jobs c)" for r
  proof (cases "finished (jobs c ! r)")
    case True
    then show ?thesis using that by (simp add: cleanup_finished)
  next
    case False
    with live [OF that] have m: "map_of (multi_client_jobs c) (job_queue_id (jobs c ! r)) = Some r"
      by simp
    show ?thesis
    proof (cases "job_queue_id (jobs c ! r) = qid")
      case True
      with m that show ?thesis by (simp add: cleanup_old_finished)
    next
      case False
      with m that show ?thesis by (simp add: cleanup_registry cleanup_queue_id)
    qed
  qed
  have e: "finished (jobs ?c ! r)"
    if "r < length (jobs c)" "job_queue_id (jobs ?c ! r) = qid" for r
    using c [OF that(1)] that by (simp add: cleanup_registry)
  from a b c e show ?thesis
    by (auto simp: registry_ok_iff cleanup_length)
qed

lemma register_ok:
  assumes ok: "registry_ok c1"
      and fin: "\<forall>r < length (jobs c1). job_queue_id (jobs c1 ! r) = qid \<longrightarrow> finished (jobs c1 ! r)"
      and nj: "job_queue_id nj = qid"
  shows "registry_ok (c1\<lparr>jobs := jobs c1 @ [nj],
           multi_client_jobs := AList.update qid (length (jobs c1)) (multi_client_jobs c1)\<rparr>)"
proof -
  let ?n = "length (jobs c1)"
  from ok have d: "distinct (map fst (multi_client_jobs c1))"
    and reg: "\<And>q r. map_of (multi_client_jobs c1) q = Some r \<Longrightarrow>
        r < ?n \<and> job_queue_id (jobs c1 ! r) = q"
    and live: "\<And>r. r < ?n \<Longrightarrow> finished (jobs c1 ! r) \<or>
        map_of (multi_client_jobs c1) (job_queue_id (jobs c1 ! r)) = Some r"
    by (auto simp: registry_ok_iff)
  have a: "distinct (map fst (AList.update qid ?n (multi_client_jobs c1)))"
    using d by (rule distinct_update)
  have b: "r < Suc ?n \<and> job_queue_id ((jobs c1 @ [nj]) ! r) = q"
    if "((map_of (multi_client_jobs c1))(qid \<mapsto> ?n)) q = Some r" for q r
  proof (cases "q = qid")
    case True
    with that have "r = ?n" by simp
    with True nj show ?thesis by simp
  next
    case False
    with that have "map_of (multi_client_jobs c1) q = Some r" by simp
    from reg [OF this] show ?thesis by (simp add: nth_append)
  qed
  have c: "finished ((jobs c1 @ [nj]) ! r) \<or>
        ((map_of (multi_client_jobs c1))(qid \<mapsto> ?n)) (job_queue_id ((jobs c1 @ [nj]) ! r)) = Some r"
    if "r < Suc ?n" for r
  proof (cases "r = ?n")
    case True
    with nj show ?thesis by simp
  next
    case False
    with that have lt: "r < ?n" by simp
    show ?thesis
    proof (cases "finished (jobs c1 ! r)")
      case True
      with lt show ?thesis by (simp add: nth_append)
    next
      case nf: False
      with fin lt have "job_queue_id (jobs c1 ! r) \<noteq> qid" by blast
      moreover from live [OF lt] nf
      have "map_of (multi_client_jobs c1) (job_queue_id (jobs c1 ! r)) = Some r" by simp
      ultimately show ?thesis using lt by (simp add: nth_append)
    qed
  qed
  let ?c2 = "c1\<lparr>jobs := jobs c1 @ [nj],
           multi_client_jobs := AList.update qid (length (jobs c1)) (multi_client_jobs c1)\<rparr>"
  show "registry_ok ?c2"
  proof (rule registry_okI)
    show "distinct (map fst (multi_client_jobs ?c2))" using a by simp
  next
    fix q r
    assume "map_of (multi_client_jobs ?c2) q = Some r"
    then have "((map_of (multi_client_jobs c1))(qid \<mapsto> ?n)) q = Some r"
      by (simp add: update_conv')
    from b [OF this] show "r < length (jobs ?c2) \<and> job_queue_id (jobs ?c2 ! r) = q"
      by simp
  next
    fix r
    assume "r < length (jobs ?c2)"
    then have "r < Suc ?n" by simp
    from c [OF this] show "finished (jobs ?c2 ! r) \<or>
        map_of (multi_client_jobs ?c2) (job_queue_id (jobs ?c2 ! r)) = Some r"
      by (simp add: update_conv')
  qed
qed

lemma registry_ok_unique_live:
  assumes "registry_ok c" "r1 < length (jobs c)" "r2 < length (jobs c)"
      and "job_queue_id (jobs c ! r1) = job_queue_id (jobs c ! r2)"
      and "\<not> finished (jobs c ! r1)" "\<not> finished (jobs c ! r2)"
  shows "r1 = r2"
proof -
  have live: "finished (jobs c ! r) \<or>
      map_of (multi_client_jobs c) (job_queue_id (jobs c ! r)) = Some r"
    if "r < length (jobs c)" for r
    using assms(1) that unfolding registry_ok_iff by blast
  from live [OF assms(2)] assms(5)
  have "map_of (multi_client_jobs c) (job_queue_id (jobs c ! r1)) = Some r1" by blast
  then have m1: "map_of (multi_client_jobs c) (job_queue_id (jobs c ! r2)) = Some r1"
    by (simp only: assms(4))
  from live [OF assms(3)] assms(6)
  have m2: "map_of (multi_client_jobs c) (job_queue_id (jobs c ! r2)) = Some r2" by blast
  from m1 m2 show ?thesis by simp
qed

text \<open>
  Claim C4. On a controller whose registry is in order (a queue id is registered at
  most once, a registered entry refers to a job of that queue id, and every job that
  has not finished is the one registered for its queue id),
  \<^verbatim>\<open>create_multi_client_stream_job\<close> keeps the registry in order, so among the jobs
  that have not finished there is at most one per queue id. It first takes the existing
  job of the queue id out of the registry and calls \<open>stop\<close> on it unless it is already
  finished (afterwards that job is finished either way), leaves the entries of the other
  queue ids alone, and then registers the new job under the queue id and returns it. If
  the queue is unknown the constructor's assertion fails after the old job was removed,
  and nothing is registered for the queue id.
\<close>

theorem create_job_replaces_registration:
  assumes ok: "registry_ok c"
      and run: "create_multi_client_stream_job h known_queue qid item seek fade uuid c = (c', res)"
  shows "registry_ok c' \<and>
         (\<forall>q. q \<noteq> qid \<longrightarrow>
            map_of (multi_client_jobs c') q = map_of (multi_client_jobs c) q) \<and>
         (\<forall>old. map_of (multi_client_jobs c) qid = Some old \<longrightarrow>
            finished (jobs c' ! old) \<and>
            jobs c' ! old =
              (if finished (jobs c ! old) then jobs c ! old else stop (jobs c ! old))) \<and>
         (\<forall>r1 r2. r1 < length (jobs c') \<and> r2 < length (jobs c') \<and>
            job_queue_id (jobs c' ! r1) = job_queue_id (jobs c' ! r2) \<and>
            \<not> finished (jobs c' ! r1) \<and> \<not> finished (jobs c' ! r2) \<longrightarrow> r1 = r2) \<and>
         (if known_queue qid
          then res = Inr (length (jobs c)) \<and>
               map_of (multi_client_jobs c') qid = Some (length (jobs c)) \<and>
               jobs c' = jobs (cleanup_existing qid c) @ [new_job h qid item seek fade uuid]
          else res = Inl AssertionError \<and> c' = cleanup_existing qid c \<and>
               map_of (multi_client_jobs c') qid = None)"
proof -
  let ?c1 = "cleanup_existing qid c"
  let ?nj = "new_job h qid item seek fade uuid"
  let ?c2 = "?c1\<lparr>jobs := jobs ?c1 @ [?nj],
               multi_client_jobs := AList.update qid (length (jobs ?c1)) (multi_client_jobs ?c1)\<rparr>"
  from cleanup_registry_ok [OF ok, of qid]
  have ok1: "registry_ok ?c1"
    and fin1: "\<forall>r < length (jobs ?c1). job_queue_id (jobs ?c1 ! r) = qid \<longrightarrow> finished (jobs ?c1 ! r)"
    by (simp_all add: cleanup_length)
  have nj: "job_queue_id ?nj = qid" by (simp add: new_job_def)
  have ok2: "registry_ok ?c2" using ok1 fin1 nj by (rule register_ok)
  from ok have reg: "\<And>q r. map_of (multi_client_jobs c) q = Some r \<Longrightarrow> r < length (jobs c)"
    by (auto simp: registry_ok_iff)
  have old1: "finished (jobs ?c1 ! old) \<and>
      jobs ?c1 ! old = (if finished (jobs c ! old) then jobs c ! old else stop (jobs c ! old))"
    if "map_of (multi_client_jobs c) qid = Some old" for old
    using that reg [OF that] by (simp add: cleanup_job finished_stop)
  have cases: "(known_queue qid \<and> c' = ?c2 \<and> res = Inr (length (jobs c))) \<or>
               (\<not> known_queue qid \<and> c' = ?c1 \<and> res = Inl AssertionError)"
    using run by (auto simp: create_multi_client_stream_job_def Let_def cleanup_length split: if_splits)
  have okc: "registry_ok c'" using cases ok1 ok2 by blast
  have others: "\<forall>q. q \<noteq> qid \<longrightarrow>
      map_of (multi_client_jobs c') q = map_of (multi_client_jobs c) q"
    using cases by (auto simp: update_conv' cleanup_registry)
  have old2: "\<forall>old. map_of (multi_client_jobs c) qid = Some old \<longrightarrow>
      finished (jobs c' ! old) \<and>
      jobs c' ! old = (if finished (jobs c ! old) then jobs c ! old else stop (jobs c ! old))"
  proof (intro allI impI)
    fix old assume m: "map_of (multi_client_jobs c) qid = Some old"
    have "jobs c' ! old = jobs ?c1 ! old"
      using cases reg [OF m] by (auto simp: nth_append cleanup_length)
    with old1 [OF m] show "finished (jobs c' ! old) \<and>
      jobs c' ! old = (if finished (jobs c ! old) then jobs c ! old else stop (jobs c ! old))"
      by (simp add: finished_stop)
  qed
  have uniq: "\<forall>r1 r2. r1 < length (jobs c') \<and> r2 < length (jobs c') \<and>
      job_queue_id (jobs c' ! r1) = job_queue_id (jobs c' ! r2) \<and>
      \<not> finished (jobs c' ! r1) \<and> \<not> finished (jobs c' ! r2) \<longrightarrow> r1 = r2"
    using registry_ok_unique_live [OF okc] by blast
  have last: "if known_queue qid
      then res = Inr (length (jobs c)) \<and>
           map_of (multi_client_jobs c') qid = Some (length (jobs c)) \<and>
           jobs c' = jobs ?c1 @ [?nj]
      else res = Inl AssertionError \<and> c' = ?c1 \<and> map_of (multi_client_jobs c') qid = None"
    using cases by (auto simp: update_conv' cleanup_registry cleanup_length)
  from okc others old2 uniq last show ?thesis by (intro conjI)
qed

lemma sample_controller_ok: "registry_ok sample_controller"
  by (simp add: registry_ok_def sample_controller_def sample_job_def new_job_def finished_def)

theorem create_job_replaces_registration_witness:
  "registry_ok sample_controller \<and>
   registry_ok (fst sample_create) \<and>
   snd sample_create = Inr 1 \<and>
   map_of (multi_client_jobs (fst sample_create)) ''queue1'' = Some 1 \<and>
   finished (jobs (fst sample_create) ! 0) \<and>
   jobs (fst sample_create) ! 0 = stop (sample_job [] TaskRunning)"
proof -
  have run: "create_multi_client_stream_job (sample_helpers ''stereo'') (\<lambda>q. True)
       ''queue1'' ''item2'' 0 False ''job2'' sample_controller =
       (fst sample_create, snd sample_create)"
    by (simp add: sample_create_def)
  have old: "map_of (multi_client_jobs sample_controller) ''queue1'' = Some 0"
    by (simp add: sample_controller_def)
  have len: "length (jobs sample_controller) = 1"
    by (simp add: sample_controller_def)
  have j0: "jobs sample_controller ! 0 = sample_job [] TaskRunning"
    by (simp add: sample_controller_def)
  have nf: "\<not> finished (sample_job [] TaskRunning)"
    by (simp add: sample_job_def new_job_def finished_def)
  note t = create_job_replaces_registration [OF sample_controller_ok run]
  from t have a: "registry_ok (fst sample_create)" by (rule conjunct1)
  have b: "finished (jobs (fst sample_create) ! 0) \<and>
      jobs (fst sample_create) ! 0 =
        (if finished (jobs sample_controller ! 0) then jobs sample_controller ! 0
         else stop (jobs sample_controller ! 0))"
    using t [THEN conjunct2, THEN conjunct2, THEN conjunct1, rule_format, OF old] .
  have c: "snd sample_create = Inr (length (jobs sample_controller)) \<and>
      map_of (multi_client_jobs (fst sample_create)) ''queue1'' =
        Some (length (jobs sample_controller)) \<and>
      jobs (fst sample_create) =
        jobs (cleanup_existing ''queue1'' sample_controller) @
        [new_job (sample_helpers ''stereo'') ''queue1'' ''item2'' 0 False ''job2'']"
    using t [THEN conjunct2, THEN conjunct2, THEN conjunct2, THEN conjunct2]
    by (simp only: if_True)
  from c have c1: "snd sample_create = Inr 1"
    and c2: "map_of (multi_client_jobs (fst sample_create)) ''queue1'' = Some 1"
    by (simp_all only: len)
  from b have b1: "finished (jobs (fst sample_create) ! 0)"
    and b2: "jobs (fst sample_create) ! 0 = stop (sample_job [] TaskRunning)"
    by (simp_all only: j0 nf if_False finished_stop)
  from sample_controller_ok a c1 c2 b1 b2 show ?thesis by (intro conjI)
qed

end
